theory Spec2Isabelle
  imports Complex_Main
begin

section \<open>The moderation state store (database.py)\<close>

text \<open>
  The store is an SQLite file with four tables. Each table is modelled by the map or list
  that its primary key gives: \<open>users\<close> is keyed by \<open>user_id\<close>, \<open>bans\<close> by
  \<open>user_id\<close>, \<open>conversation_roles\<close> by the pair \<open>(user_id, peer_id)\<close>, and
  \<open>warns\<close> is a list in insertion order (ascending \<open>AUTOINCREMENT\<close> id). The
  connection never enables foreign keys, so no table constrains another.
  Clock readings \<open>int(time.time())\<close> are passed in as a natural number of seconds.
\<close>

record user_row =
  nickname :: "string option"
  role :: string
  messages_count :: int
  warns :: int
  mute_until :: int
  ban_reason :: "string option"
  reg_date :: int

text \<open>
  Texts that the bot composes itself are Cyrillic format strings; they are modelled by a
  constructor per template, carrying the values that the template interpolates (display
  names, which only decorate the text, are left out). A reason is the text typed by the
  moderator, the default used when \<open>split\<close> yields no second part, or the reason
  composed for an automatic ban from the warning count.
\<close>

datatype reason_text =
    Given string
  | NotGiven
  | AutoBanLimit int

record warn_row =
  warn_id :: nat
  warn_user_id :: int
  warn_reason :: reason_text
  warn_timestamp :: int

record ban_row =
  ban_text :: reason_text
  ban_timestamp :: int

record database =
  users :: "int \<rightharpoonup> user_row"
  warns_table :: "warn_row list"
  warns_seq :: nat
  bans :: "int \<rightharpoonup> ban_row"
  conversation_roles :: "(int \<times> int) \<rightharpoonup> string"

definition new_user :: "nat \<Rightarrow> user_row" where
  "new_user now = \<lparr> nickname = None, role = ''user'', messages_count = 0, warns = 0,
                    mute_until = 0, ban_reason = None, reg_date = int now \<rparr>"

definition empty_db :: database where
  "empty_db = \<lparr> users = Map.empty, warns_table = [], warns_seq = 0, bans = Map.empty,
                conversation_roles = Map.empty \<rparr>"

definition get_user :: "database \<Rightarrow> int \<Rightarrow> user_row option" where
  "get_user db user_id = users db user_id"

definition add_user :: "database \<Rightarrow> nat \<Rightarrow> int \<Rightarrow> database" where
  "add_user db now user_id =
     (case users db user_id of
        Some row \<Rightarrow> db
      | None \<Rightarrow> db\<lparr> users := (users db)(user_id \<mapsto> new_user now) \<rparr>)"


text \<open>
  \<open>add_warn\<close> inserts the entry, increments the counter of the user's row and reads it
  back with \<open>cursor.fetchone()[0]\<close>, which raises \<open>TypeError\<close> when the user has no
  row; the insert has happened by then. A new entry gets an id above every id in the
  table and above the \<open>AUTOINCREMENT\<close> sequence.
\<close>

datatype py_error = IndexError | ValueError | TypeError | OverflowError

definition next_warn_id :: "database \<Rightarrow> nat" where
  "next_warn_id db = Suc (fold max (map warn_id (warns_table db)) (warns_seq db))"

definition add_warn :: "database \<Rightarrow> nat \<Rightarrow> int \<Rightarrow> reason_text \<Rightarrow> database \<times> (py_error + int)" where
  "add_warn db now user_id reason =
     (let entry = \<lparr> warn_id = next_warn_id db, warn_user_id = user_id, warn_reason = reason,
                     warn_timestamp = int now \<rparr>;
          db1 = db\<lparr> warns_table := warns_table db @ [entry], warns_seq := next_warn_id db \<rparr>
      in case users db1 user_id of
           None \<Rightarrow> (db1, Inl TypeError)
         | Some row \<Rightarrow>
             (db1\<lparr> users := (users db1)(user_id \<mapsto> row\<lparr> warns := warns row + 1 \<rparr>) \<rparr>,
              Inr (warns row + 1)))"


definition get_warns :: "database \<Rightarrow> int \<Rightarrow> int" where
  "get_warns db user_id = (case users db user_id of Some row \<Rightarrow> warns row | None \<Rightarrow> 0)"


text \<open>
  \<open>sqlite3\<close> binds an integer parameter only when it fits the signed 64-bit
  \<open>INTEGER\<close> of SQLite, and raises \<open>OverflowError\<close> otherwise. The end of a mute is
  computed in Python, where integers are unbounded, so \<open>set_mute\<close> can compute a value
  that the \<open>UPDATE\<close> cannot bind; the statement then raises and nothing is stored.
\<close>

definition bindable :: "int \<Rightarrow> bool" where
  "bindable n = (- 9223372036854775808 \<le> n \<and> n \<le> 9223372036854775807)"




definition ban_user :: "database \<Rightarrow> nat \<Rightarrow> int \<Rightarrow> reason_text \<Rightarrow> database \<times> bool" where
  "ban_user db now user_id reason =
     (db\<lparr> bans := (bans db)(user_id \<mapsto> \<lparr> ban_text = reason, ban_timestamp = int now \<rparr>) \<rparr>, True)"

definition get_ban :: "database \<Rightarrow> int \<Rightarrow> ban_row option" where
  "get_ban db user_id = bans db user_id"

text \<open>
  \<open>set_role\<close> and \<open>get_role\<close> test the optional conversation id with \<open>if peer_id:\<close>,
  which is false for \<open>None\<close> and for \<open>0\<close>.
\<close>

definition truthy :: "int option \<Rightarrow> bool" where
  "truthy p = (case p of None \<Rightarrow> False | Some n \<Rightarrow> n \<noteq> 0)"

definition set_role :: "database \<Rightarrow> int \<Rightarrow> string \<Rightarrow> int option \<Rightarrow> database \<times> bool" where
  "set_role db user_id r peer_id =
     (if truthy peer_id then
        (db\<lparr> conversation_roles := (conversation_roles db)((user_id, the peer_id) \<mapsto> r) \<rparr>, True)
      else
        (case users db user_id of
           Some row \<Rightarrow> (db\<lparr> users := (users db)(user_id \<mapsto> row\<lparr> role := r \<rparr>) \<rparr>, True)
         | None \<Rightarrow> (db, False)))"

definition global_role :: "database \<Rightarrow> int \<Rightarrow> string" where
  "global_role db user_id = (case users db user_id of Some row \<Rightarrow> role row | None \<Rightarrow> ''user'')"

definition get_role :: "database \<Rightarrow> int \<Rightarrow> int option \<Rightarrow> string" where
  "get_role db user_id peer_id =
     (case (if truthy peer_id then conversation_roles db (user_id, the peer_id) else None) of
        Some r \<Rightarrow> r
      | None \<Rightarrow> global_role db user_id)"

section \<open>The role and access model (bot.py)\<close>

definition ROLE_HIERARCHY :: "string \<rightharpoonup> nat" where
  "ROLE_HIERARCHY =
     [''user'' \<mapsto> 1, ''moderator'' \<mapsto> 2, ''senior_moderator'' \<mapsto> 3, ''admin'' \<mapsto> 4,
      ''creator'' \<mapsto> 5]"

definition rank :: "string \<Rightarrow> nat" where
  "rank r = (case ROLE_HIERARCHY r of Some n \<Rightarrow> n | None \<Rightarrow> 0)"

text \<open>
  The chat platform is an external collaborator. \<open>getConversationMembers\<close> either raises
  (\<open>None\<close>) or returns the items of the conversation, each a member id and its
  \<open>is_owner\<close> flag; \<open>users.get\<close> either raises or returns the ids of the matching
  profiles.
\<close>

record vk_api =
  getConversationMembers :: "int \<Rightarrow> (int \<times> bool) list option"
  users_get :: "string \<Rightarrow> int list option"

definition get_conversation_owner :: "vk_api \<Rightarrow> int \<Rightarrow> int option" where
  "get_conversation_owner vk peer_id =
     (case getConversationMembers vk peer_id of
        None \<Rightarrow> None
      | Some items \<Rightarrow>
          (case filter snd items of [] \<Rightarrow> None | item # _ \<Rightarrow> Some (fst item)))"

definition is_conversation_owner :: "vk_api \<Rightarrow> int \<Rightarrow> int \<Rightarrow> bool" where
  "is_conversation_owner vk peer_id user_id = (get_conversation_owner vk peer_id = Some user_id)"

definition check_access :: "database \<Rightarrow> int \<Rightarrow> string \<Rightarrow> int option \<Rightarrow> bool" where
  "check_access db user_id required_role peer_id =
     (case peer_id of
        Some p \<Rightarrow> rank (get_role db user_id (Some p)) \<ge> rank required_role
      | None \<Rightarrow>
          (case get_user db user_id of
             None \<Rightarrow> False
           | Some user \<Rightarrow> rank (role user) \<ge> rank required_role))"

definition has_rights :: "database \<Rightarrow> vk_api \<Rightarrow> int \<Rightarrow> int \<Rightarrow> string \<Rightarrow> bool" where
  "has_rights db vk peer_id user_id required_role =
     (let is_owner = is_conversation_owner vk peer_id user_id;
          has_role_access = check_access db user_id required_role (Some peer_id)
      in is_owner \<or> has_role_access)"

text \<open>
  The same reads as Python runs them, with the binding of the query parameters: the user
  id in every query, the conversation id in the query on \<open>conversation_roles\<close>. The
  functions above are their results for parameters that can be bound.
\<close>

definition get_user_call :: "database \<Rightarrow> int \<Rightarrow> py_error + user_row option" where
  "get_user_call db user_id =
     (if bindable user_id then Inr (get_user db user_id) else Inl OverflowError)"

definition get_role_call :: "database \<Rightarrow> int \<Rightarrow> int option \<Rightarrow> py_error + string" where
  "get_role_call db user_id peer_id =
     (if truthy peer_id \<and> \<not> (bindable user_id \<and> bindable (the peer_id)) then Inl OverflowError
      else if \<not> bindable user_id then Inl OverflowError
      else Inr (get_role db user_id peer_id))"

definition check_access_call ::
  "database \<Rightarrow> int \<Rightarrow> string \<Rightarrow> int option \<Rightarrow> py_error + bool" where
  "check_access_call db user_id required_role peer_id =
     (case peer_id of
        Some p \<Rightarrow>
          (case get_role_call db user_id (Some p) of
             Inl e \<Rightarrow> Inl e
           | Inr user_role \<Rightarrow> Inr (rank user_role \<ge> rank required_role))
      | None \<Rightarrow>
          (case get_user_call db user_id of
             Inl e \<Rightarrow> Inl e
           | Inr None \<Rightarrow> Inr False
           | Inr (Some user) \<Rightarrow> Inr (rank (role user) \<ge> rank required_role)))"

text \<open>
  The cooldown map is process state of the bot. \<open>time.time()\<close> is a float; the gate only
  subtracts and compares, which is modelled over the reals.
\<close>

definition check_cooldown ::
  "(int \<rightharpoonup> real) \<Rightarrow> int \<Rightarrow> real \<Rightarrow> int \<Rightarrow> (int \<rightharpoonup> real) \<times> bool" where
  "check_cooldown last_command_time command_cooldown now user_id =
     (case last_command_time user_id of
        Some t \<Rightarrow>
          if now - t < real_of_int command_cooldown then (last_command_time, False)
          else (last_command_time(user_id \<mapsto> now), True)
      | None \<Rightarrow> (last_command_time(user_id \<mapsto> now), True))"

section \<open>Python strings (code points below 256)\<close>

text \<open>
  A \<open>string\<close> is a list of 8-bit characters, read as the code points U+0000 to U+00FF of
  a Python \<open>str\<close>. The character classes below are those of Python 3 on that range:
  \<open>str.isspace\<close> (used by \<open>split()\<close> and \<open>strip()\<close>), the regular expression
  classes \<open>\d\<close> and \<open>\w\<close>, and \<open>str.isdigit\<close>, which also accepts the superscript
  digits U+00B2, U+00B3 and U+00B9 that \<open>int()\<close> rejects.
\<close>

definition code :: "char \<Rightarrow> nat" where
  "code c = of_char c"

definition is_space :: "char \<Rightarrow> bool" where
  "is_space c = ((9 \<le> code c \<and> code c \<le> 13) \<or> (28 \<le> code c \<and> code c \<le> 32)
                 \<or> code c = 133 \<or> code c = 160)"

definition is_decimal :: "char \<Rightarrow> bool" where
  "is_decimal c = (48 \<le> code c \<and> code c \<le> 57)"

definition isdigit_char :: "char \<Rightarrow> bool" where
  "isdigit_char c = (is_decimal c \<or> code c = 178 \<or> code c = 179 \<or> code c = 185)"

definition is_word :: "char \<Rightarrow> bool" where
  "is_word c =
     (is_decimal c \<or> (65 \<le> code c \<and> code c \<le> 90) \<or> code c = 95
      \<or> (97 \<le> code c \<and> code c \<le> 122)
      \<or> code c = 170 \<or> code c = 178 \<or> code c = 179 \<or> code c = 181 \<or> code c = 185
      \<or> code c = 186 \<or> (188 \<le> code c \<and> code c \<le> 190)
      \<or> (192 \<le> code c \<and> code c \<le> 214) \<or> (216 \<le> code c \<and> code c \<le> 246)
      \<or> 248 \<le> code c)"

definition lower_char :: "char \<Rightarrow> char" where
  "lower_char c =
     (if (65 \<le> code c \<and> code c \<le> 90) \<or> (192 \<le> code c \<and> code c \<le> 222 \<and> code c \<noteq> 215)
      then char_of (code c + 32) else c)"

definition lower :: "string \<Rightarrow> string" where
  "lower s = map lower_char s"

definition isdigit :: "string \<Rightarrow> bool" where
  "isdigit s = (s \<noteq> [] \<and> list_all isdigit_char s)"

definition decimal_value :: "string \<Rightarrow> int" where
  "decimal_value s = foldl (\<lambda>a c. 10 * a + (int (code c) - 48)) 0 s"

text \<open>
  \<open>int(s)\<close> is only ever applied to a string that passed \<open>isdigit()\<close> or was matched by
  \<open>\d+\<close>; on such a string it returns the decimal value when every character is a
  decimal digit and raises \<open>ValueError\<close> otherwise.
\<close>

definition py_int :: "string \<Rightarrow> py_error + int" where
  "py_int s = (if s \<noteq> [] \<and> list_all is_decimal s then Inr (decimal_value s) else Inl ValueError)"

definition startswith :: "string \<Rightarrow> string \<Rightarrow> bool" where
  "startswith s p = (take (length p) s = p)"

definition contains :: "char \<Rightarrow> string \<Rightarrow> bool" where
  "contains c s = (c \<in> set s)"

fun find_from :: "string \<Rightarrow> string \<Rightarrow> int \<Rightarrow> int" where
  "find_from [] sub i = (if sub = [] then i else - 1)"
| "find_from (c # cs) sub i = (if startswith (c # cs) sub then i else find_from cs sub (i + 1))"

definition find :: "string \<Rightarrow> string \<Rightarrow> int" where
  "find s sub = find_from s sub 0"

text \<open>The slice \<open>s[a:b]\<close> for \<open>0 \<le> a\<close> and \<open>0 \<le> b\<close>.\<close>

definition slice :: "string \<Rightarrow> int \<Rightarrow> int \<Rightarrow> string" where
  "slice s a b = drop (nat a) (take (nat b) s)"

text \<open>\<open>s.split()\<close>: the maximal runs of characters that are not white space.\<close>

fun split_ws_from :: "string \<Rightarrow> string \<Rightarrow> string list" where
  "split_ws_from cur [] = (if cur = [] then [] else [cur])"
| "split_ws_from cur (c # cs) =
     (if is_space c then (if cur = [] then split_ws_from [] cs else cur # split_ws_from [] cs)
      else split_ws_from (cur @ [c]) cs)"

definition split_ws :: "string \<Rightarrow> string list" where
  "split_ws s = split_ws_from [] s"

definition strip :: "string \<Rightarrow> string" where
  "strip s = rev (dropWhile is_space (rev (dropWhile is_space s)))"

text \<open>\<open>s.split(' ', 1)\<close>: at most one cut, at the first space.\<close>

definition split_space_1 :: "string \<Rightarrow> string list" where
  "split_space_1 s =
     (if contains CHR '' '' s
      then [takeWhile (\<lambda>c. c \<noteq> CHR '' '') s, tl (dropWhile (\<lambda>c. c \<noteq> CHR '' '') s)]
      else [s])"

text \<open>\<open>s.split("/")[-1]\<close>: what follows the last slash, the whole string when there is none.\<close>

definition after_last_slash :: "string \<Rightarrow> string" where
  "after_last_slash s = rev (takeWhile (\<lambda>c. c \<noteq> CHR ''/'') (rev s))"

section \<open>Duration parsing (utils.py)\<close>

text \<open>
  \<open>parse_time\<close> matches \<open>^(\d+)([smhd])$\<close> against the lower-cased text; \<open>$\<close> also
  matches before a final line feed. Every rejection is a \<open>ValueError\<close>.
\<close>

definition unit_seconds :: "char \<Rightarrow> int \<Rightarrow> py_error + int" where
  "unit_seconds unit v =
     (if unit = CHR ''s'' then Inr v
      else if unit = CHR ''m'' then Inr (v * 60)
      else if unit = CHR ''h'' then Inr (v * 3600)
      else if unit = CHR ''d'' then Inr (v * 86400)
      else Inl ValueError)"

definition parse_time :: "string \<Rightarrow> py_error + int" where
  "parse_time time_str =
     (if time_str = [] then Inl ValueError
      else
        let t = lower time_str;
            digits = takeWhile is_decimal t;
            rest = dropWhile is_decimal t
        in if digits = [] then Inl ValueError
           else (case rest of
                   [unit] \<Rightarrow> unit_seconds unit (decimal_value digits)
                 | [unit, nl] \<Rightarrow>
                     if nl = CHR 0x0A then unit_seconds unit (decimal_value digits)
                     else Inl ValueError
                 | _ \<Rightarrow> Inl ValueError))"

section \<open>Mention resolution (bot.py)\<close>

text \<open>
  \<open>users.get(user_ids=screen_name)\<close> inside its own \<open>try\<close>: an exception and an empty
  answer both leave the resolver without a result at that step, and the next step runs.
\<close>

definition lookup_screen_name :: "vk_api \<Rightarrow> string \<Rightarrow> int option" where
  "lookup_screen_name vk screen_name =
     (case users_get vk screen_name of
        None \<Rightarrow> None
      | Some user_info \<Rightarrow> (case user_info of [] \<Rightarrow> None | i # _ \<Rightarrow> Some i))"

text \<open>
  The three patterns \<open>vk_url_patterns\<close> are tried with \<open>re.match\<close>, anchored at the
  start of the word. Each begins with \<open>(?:https?://)?(?:www\.)?\<close>; a word that starts
  with a scheme or with \<open>www.\<close> cannot also match without it, so stripping the optional
  parts greedily is the whole match.
\<close>

definition url_rest :: "string \<Rightarrow> string" where
  "url_rest s =
     (let s1 = (if startswith s ''https://'' then drop 8 s
                else if startswith s ''http://'' then drop 7 s else s)
      in if startswith s1 ''www.'' then drop 4 s1 else s1)"

text \<open>\<open>host/id(\d+)\<close> after the optional parts: the group is the maximal run of digits.\<close>

definition match_id_url :: "string \<Rightarrow> string \<Rightarrow> string option" where
  "match_id_url host s =
     (let r = url_rest s in
      if startswith r (host @ ''/id'')
      then (let g = takeWhile is_decimal (drop (length host + 3) r)
            in if g = [] then None else Some g)
      else None)"

definition match_any_url :: "string \<Rightarrow> bool" where
  "match_any_url s = startswith (url_rest s) ''vk.com/''"

definition screen_name_of_url :: "vk_api \<Rightarrow> string \<Rightarrow> int option" where
  "screen_name_of_url vk first_word =
     (let screen_name = after_last_slash first_word
      in if screen_name \<noteq> [] then lookup_screen_name vk screen_name else None)"

text \<open>
  One round of the loop for a pattern with a group: \<open>None\<close> when the loop goes on to the
  next pattern, otherwise the value returned.
\<close>

definition id_url_round :: "vk_api \<Rightarrow> string \<Rightarrow> string \<Rightarrow> (py_error + int) option" where
  "id_url_round vk host first_word =
     (case match_id_url host first_word of
        None \<Rightarrow> None
      | Some g \<Rightarrow>
          if isdigit g then Some (py_int g)
          else map_option Inr (screen_name_of_url vk first_word))"

definition any_url_round :: "vk_api \<Rightarrow> string \<Rightarrow> (py_error + int) option" where
  "any_url_round vk first_word =
     (if match_any_url first_word then map_option Inr (screen_name_of_url vk first_word)
      else None)"

definition bracket_round :: "string \<Rightarrow> (py_error + int) option" where
  "bracket_round first_word =
     (if startswith first_word ''['' \<and> contains CHR ''|'' first_word
         \<and> contains CHR '']'' first_word
      then
        (let start_idx = find first_word ''id'' + 2;
             end_idx = find first_word ''|''
         in if start_idx > 1 \<and> end_idx > start_idx
            then (let user_id_str = slice first_word start_idx end_idx
                  in if isdigit user_id_str then Some (py_int user_id_str) else None)
            else None)
      else None)"

definition at_round :: "vk_api \<Rightarrow> string \<Rightarrow> (py_error + int) option" where
  "at_round vk first_word =
     (if startswith first_word ''@''
      then map_option Inr (lookup_screen_name vk (tl first_word))
      else None)"

text \<open>
  \<open>re.search\<close> of \<open>\[id(\d+)\|[^\]]+\]\<close> and of \<open>@(\w+)\<close> in the whole text: the
  leftmost position where the pattern matches, and its group.
\<close>

definition match_markup_here :: "string \<Rightarrow> string option" where
  "match_markup_here s =
     (if startswith s ''[id''
      then (let g = takeWhile is_decimal (drop 3 s);
                after = dropWhile is_decimal (drop 3 s)
            in if g \<noteq> [] \<and> startswith after ''|''
                  \<and> takeWhile (\<lambda>c. c \<noteq> CHR '']'') (tl after) \<noteq> []
                  \<and> dropWhile (\<lambda>c. c \<noteq> CHR '']'') (tl after) \<noteq> []
               then Some g else None)
      else None)"

fun search_markup :: "string \<Rightarrow> string option" where
  "search_markup [] = None"
| "search_markup (c # cs) =
     (case match_markup_here (c # cs) of Some g \<Rightarrow> Some g | None \<Rightarrow> search_markup cs)"

fun search_at :: "string \<Rightarrow> string option" where
  "search_at [] = None"
| "search_at (c # cs) =
     (if c = CHR ''@'' \<and> takeWhile is_word cs \<noteq> [] then Some (takeWhile is_word cs)
      else search_at cs)"

definition full_text_round :: "vk_api \<Rightarrow> string \<Rightarrow> py_error + int option" where
  "full_text_round vk mention =
     (if contains CHR '' '' mention
      then (case search_markup mention of
              Some g \<Rightarrow> map_sum id Some (py_int g)
            | None \<Rightarrow>
                (case search_at mention of
                   Some screen_name \<Rightarrow> Inr (lookup_screen_name vk screen_name)
                 | None \<Rightarrow> Inr None))
      else Inr None)"

text \<open>
  The first word: \<open>mention.split()[0] if ' ' in mention else mention\<close>. A text of white
  space only, with a space in it, has no first word and the index raises.
\<close>

definition first_word_of :: "string \<Rightarrow> py_error + string" where
  "first_word_of mention =
     (if contains CHR '' '' mention
      then (case split_ws mention of [] \<Rightarrow> Inl IndexError | w # _ \<Rightarrow> Inr w)
      else Inr mention)"

fun first_result :: "(py_error + int) option list \<Rightarrow> (py_error + int) option" where
  "first_result [] = None"
| "first_result (None # rs) = first_result rs"
| "first_result (Some r # rs) = Some r"

text \<open>The body of the outer \<open>try\<close>: \<open>Inl\<close> is an exception raised inside it.\<close>

definition extract_body :: "vk_api \<Rightarrow> string \<Rightarrow> py_error + int option" where
  "extract_body vk mention =
     (case first_word_of mention of
        Inl e \<Rightarrow> Inl e
      | Inr first_word \<Rightarrow>
          if isdigit first_word then map_sum id Some (py_int first_word)
          else
            (case first_result
                    [bracket_round first_word,
                     id_url_round vk ''vk.com'' first_word,
                     id_url_round vk ''vk.me'' first_word,
                     any_url_round vk first_word,
                     at_round vk first_word] of
               Some r \<Rightarrow> map_sum id Some r
             | None \<Rightarrow> full_text_round vk mention))"

text \<open>The outer \<open>except Exception\<close> logs and returns \<open>None\<close>.\<close>

definition extract_user_id_from_mention :: "vk_api \<Rightarrow> string \<Rightarrow> int option" where
  "extract_user_id_from_mention vk mention =
     (case extract_body vk mention of Inl e \<Rightarrow> None | Inr r \<Rightarrow> r)"

section \<open>Command handlers (commands.py) and the message handler (bot.py)\<close>

text \<open>
  A handler takes the store and returns the store it leaves, together with the trace of
  the calls it made, in program order, that act on the store or on the platform:
  \<open>db.add_user\<close>, \<open>db.update_message_count\<close>, \<open>db.add_warn\<close>,
  \<open>db.ban_user\<close>, \<open>db.set_role\<close>, \<open>bot.send_message\<close>, \<open>bot.send_log_message\<close> (the audit entry),
  \<open>bot.kick_user\<close>, \<open>bot.delete_message\<close>. A trace that ends in \<open>Raised\<close> is a
  handler left by an exception. The clock reading of a handler is one value \<open>now\<close>.
\<close>

datatype message_text =
    UserRequired
  | UserNotResolved
  | WarnUsage
  | WarnStaffProtected
  | WarnIssued int int reason_text int
  | AutoBanned int int
  | BanUsage
  | BanStaffProtected int
  | Banned int int reason_text nat
  | BanFailed int
  | NotAdmin int
  | AdminRemoved int
  | RemoveAdminFailed int
  | MuteNotice int int

datatype log_details =
    WarnDetails reason_text int
  | AutoBanDetails int
  | BanDetails reason_text
  | AdminRemovedDetails
  | MessageDetails string

datatype db_call =
    AddUser int
  | UpdateMessageCount int
  | AddWarn int reason_text
  | BanUser int reason_text
  | SetRole int string int

datatype event =
    DbCall db_call
  | SendMessage int message_text
  | SendLogMessage string int "int option" "int option" log_details
  | KickUser int int
  | DeleteMessage int int
  | HandleCommand int int string
  | Raised py_error

text \<open>\<open>if not target_id\<close>: no id, or the id \<open>0\<close>.\<close>

definition not_id :: "int option \<Rightarrow> bool" where
  "not_id target_id = (case target_id of None \<Rightarrow> True | Some t \<Rightarrow> t = 0)"

text \<open>
  \<open>parts = args.strip().split(' ', 1)\<close>, then \<open>parts[0]\<close> and
  \<open>parts[1] if len(parts) > 1 else\<close> the default reason.
\<close>

definition user_identifier_of :: "string \<Rightarrow> string" where
  "user_identifier_of args = (case split_space_1 (strip args) of [] \<Rightarrow> [] | a # _ \<Rightarrow> a)"

definition reason_of :: "string \<Rightarrow> reason_text" where
  "reason_of args = (case split_space_1 (strip args) of a # b # _ \<Rightarrow> Given b | _ \<Rightarrow> NotGiven)"

text \<open>The staff check shared by the moderation actions; it passes no conversation id.\<close>

definition staff_protected :: "database \<Rightarrow> int \<Rightarrow> int \<Rightarrow> bool" where
  "staff_protected db target_id user_id =
     (check_access db target_id ''moderator'' None \<and> \<not> check_access db user_id ''admin'' None)"

definition auto_ban :: "nat \<Rightarrow> database \<Rightarrow> int \<Rightarrow> int \<Rightarrow> int \<Rightarrow> int \<Rightarrow> database \<times> event list" where
  "auto_ban now db peer_id user_id target_id warn_count =
     (if warn_count \<ge> 3 then
        (fst (ban_user db now target_id (AutoBanLimit warn_count)),
         [DbCall (BanUser target_id (AutoBanLimit warn_count)),
          SendMessage peer_id (AutoBanned target_id warn_count),
          KickUser peer_id target_id,
          SendLogMessage ''ban'' user_id (Some target_id) (Some peer_id)
            (AutoBanDetails warn_count)])
      else (db, []))"

definition cmd_warn ::
  "vk_api \<Rightarrow> nat \<Rightarrow> database \<Rightarrow> int \<Rightarrow> int \<Rightarrow> string \<Rightarrow> database \<times> event list" where
  "cmd_warn vk now db peer_id user_id args =
     (if args = [] \<or> \<not> contains CHR '' '' args then (db, [SendMessage peer_id WarnUsage])
      else
        let user_identifier = user_identifier_of args;
            reason = reason_of args;
            target = extract_user_id_from_mention vk user_identifier
        in if not_id target then (db, [SendMessage peer_id UserNotResolved])
           else
             let target_id = the target
             in if staff_protected db target_id user_id
                then (db, [SendMessage peer_id WarnStaffProtected])
                else
                  let db1 = add_user db now target_id;
                      (db2, res) = add_warn db1 now target_id reason
                  in (case res of
                        Inl e \<Rightarrow>
                          (db2, [DbCall (AddUser target_id), DbCall (AddWarn target_id reason),
                                 Raised e])
                      | Inr warn_count \<Rightarrow>
                          (let (db3, banned) = auto_ban now db2 peer_id user_id target_id warn_count
                           in (db3,
                               [DbCall (AddUser target_id), DbCall (AddWarn target_id reason),
                                SendMessage peer_id (WarnIssued target_id user_id reason warn_count),
                                SendLogMessage ''warn'' user_id (Some target_id) (Some peer_id)
                                  (WarnDetails reason warn_count)] @ banned))))"

definition cmd_ban ::
  "vk_api \<Rightarrow> nat \<Rightarrow> database \<Rightarrow> int \<Rightarrow> int \<Rightarrow> string \<Rightarrow> database \<times> event list" where
  "cmd_ban vk now db peer_id user_id args =
     (if args = [] \<or> \<not> contains CHR '' '' args then (db, [SendMessage peer_id BanUsage])
      else
        let user_identifier = user_identifier_of args;
            reason = reason_of args;
            target = extract_user_id_from_mention vk user_identifier
        in if not_id target then (db, [SendMessage peer_id UserNotResolved])
           else
             let target_id = the target
             in if staff_protected db target_id user_id
                then (db, [SendMessage peer_id (BanStaffProtected target_id)])
                else
                  let db1 = add_user db now target_id;
                      (db2, ok) = ban_user db1 now target_id reason
                  in if ok
                     then (db2,
                           [DbCall (AddUser target_id), DbCall (BanUser target_id reason),
                            SendMessage peer_id (Banned target_id user_id reason now),
                            SendLogMessage ''ban'' user_id (Some target_id) (Some peer_id)
                              (BanDetails reason),
                            KickUser peer_id target_id])
                     else (db2,
                           [DbCall (AddUser target_id), DbCall (BanUser target_id reason),
                            SendMessage peer_id (BanFailed target_id)]))"







section \<open>Definitions used to state the properties\<close>

text \<open>
  The effective role as the specification words it: the override stored for the user in
  the conversation when there is one, otherwise the global role.
\<close>

definition effective_role :: "database \<Rightarrow> int \<Rightarrow> int \<Rightarrow> string" where
  "effective_role db user_id conversation =
     (case conversation_roles db (user_id, conversation) of
        Some r \<Rightarrow> r
      | None \<Rightarrow> global_role db user_id)"

text \<open>A platform on which every call raises: no owner is known, no profile is found.\<close>

definition no_vk :: vk_api where
  "no_vk = \<lparr> getConversationMembers = (\<lambda>_. None), users_get = (\<lambda>_. None) \<rparr>"

text \<open>A store in which user 7 is registered and nothing else is.\<close>

definition one_user :: database where
  "one_user = add_user empty_db 0 7"

text \<open>A platform on which every profile lookup answers with no match.\<close>

definition no_match_vk :: vk_api where
  "no_match_vk = \<lparr> getConversationMembers = (\<lambda>_. None), users_get = (\<lambda>_. Some []) \<rparr>"

text \<open>
  Users 1, 2 and 3 registered and appointed in conversation 2000000001 the way the role
  commands do it (\<open>db.add_user\<close>, then \<open>db.set_role\<close> with the conversation id): 1 and
  2 as moderators, 3 as senior moderator.
\<close>

definition conversation_staff :: database where
  "conversation_staff =
     fst (set_role (fst (set_role (fst (set_role
       (add_user (add_user (add_user empty_db 0 1) 0 2) 0 3)
       1 ''moderator'' (Some 2000000001)))
       2 ''moderator'' (Some 2000000001)))
       3 ''senior_moderator'' (Some 2000000001))"

text \<open>
  Sequences of store operations on one user: the warnings of a list, each with its clock
  reading and reason, stopping at the first \<open>add_warn\<close> that raises; and a number of
  \<open>remove_warn\<close> calls.
\<close>

fun warn_many :: "database \<Rightarrow> int \<Rightarrow> (nat \<times> reason_text) list \<Rightarrow> database \<times> py_error option" where
  "warn_many db u [] = (db, None)"
| "warn_many db u (w # ws) =
     (case add_warn db (fst w) u (snd w) of
        (db1, Inl e) \<Rightarrow> (db1, Some e)
      | (db1, Inr c) \<Rightarrow> warn_many db1 u ws)"




text \<open>
  The foreign key that the schema declares on \<open>conversation_roles\<close>: every role row
  belongs to a user that has a row. SQLite does not enforce it on this connection; the
  handlers keep it by calling \<open>db.add_user\<close> before \<open>db.set_role\<close>.
\<close>

definition roles_reference_users :: "database \<Rightarrow> bool" where
  "roles_reference_users db =
     (\<forall>k. conversation_roles db k \<noteq> None \<longrightarrow> users db (fst k) \<noteq> None)"

text \<open>Stores for concrete runs of the handlers.\<close>

definition twice_warned :: database where
  "twice_warned = fst (warn_many (add_user empty_db 0 2) 2 [(1, Given ''a''), (2, Given ''b'')])"

definition one_admin :: database where
  "one_admin = fst (set_role (add_user empty_db 0 2) 2 ''admin'' (Some 5))"



section \<open>Access control\<close>

lemma rank_values:
  "rank ''user'' = 1" "rank ''moderator'' = 2" "rank ''senior_moderator'' = 3"
  "rank ''admin'' = 4" "rank ''creator'' = 5"
  by (simp_all add: rank_def ROLE_HIERARCHY_def)

lemma check_access_global:
  "check_access db u req None = (users db u \<noteq> None \<and> rank (global_role db u) \<ge> rank req)"
  by (simp add: check_access_def get_user_def global_role_def split: option.splits)

lemma one_user_row: "users one_user 7 = Some (new_user 0)"
  by (simp add: one_user_def add_user_def empty_db_def)

text \<open>
  C1. For every user, conversation and required role, \<open>has_rights\<close> grants exactly when
  the rank of the effective role reaches the rank of the required role or the user is the
  owner of the conversation; the effective role is the override stored for the user in
  that conversation when there is one, otherwise the global role. Storing an override for
  a conversation makes it the effective role there, leaves every global role as it was,
  and changes no check of any other conversation. A conversation id is the peer id that
  the platform sends with a message, which is never 0; the store reads 0, like an absent
  id, as no conversation.
\<close>

theorem has_rights_effective_role:
  "peer_id \<noteq> 0 \<Longrightarrow>
     (has_rights db vk peer_id user_id required \<longleftrightarrow>
        rank (effective_role db user_id peer_id) \<ge> rank required
        \<or> is_conversation_owner vk peer_id user_id)
     \<and> effective_role (fst (set_role db user_id r (Some peer_id))) user_id peer_id = r
     \<and> global_role (fst (set_role db user_id r (Some peer_id))) u' = global_role db u'
     \<and> (p' \<noteq> peer_id \<longrightarrow>
          has_rights (fst (set_role db user_id r (Some peer_id))) vk p' u' required
            = has_rights db vk p' u' required)"
  by (auto simp add: has_rights_def check_access_def get_role_def effective_role_def truthy_def
        set_role_def global_role_def Let_def split: option.splits)

theorem has_rights_effective_role_witness:
  "(5::int) \<noteq> 0 \<and> (6::int) \<noteq> 5
   \<and> \<not> has_rights one_user no_vk 5 7 ''admin''
   \<and> effective_role (fst (set_role one_user 7 ''admin'' (Some 5))) 7 5 = ''admin''
   \<and> global_role (fst (set_role one_user 7 ''admin'' (Some 5))) 7 = ''user''
   \<and> \<not> has_rights (fst (set_role one_user 7 ''admin'' (Some 5))) no_vk 6 7 ''admin''"
proof -
  have h: "(5::int) \<noteq> 0" by simp
  have g: "global_role one_user 7 = ''user''"
    by (simp add: global_role_def one_user_row new_user_def)
  have e: "effective_role one_user 7 5 = ''user''"
    by (simp add: effective_role_def global_role_def one_user_def add_user_def empty_db_def
          new_user_def)
  have o: "\<not> is_conversation_owner no_vk 5 7"
    by (simp add: is_conversation_owner_def get_conversation_owner_def no_vk_def)
  have other: "\<not> has_rights one_user no_vk 6 7 ''admin''"
    by (simp add: has_rights_def check_access_def get_role_def truthy_def global_role_def
          one_user_def add_user_def empty_db_def new_user_def no_vk_def
          is_conversation_owner_def get_conversation_owner_def rank_values)
  show ?thesis
    using has_rights_effective_role [OF h, of one_user no_vk 7 "''admin''" "''admin''" 7 6]
      g e o other
    by (simp add: rank_values)
qed

lemma add_user_keeps_references:
  "roles_reference_users db \<Longrightarrow> roles_reference_users (add_user db now u)"
  by (auto simp add: roles_reference_users_def add_user_def split: option.splits)

lemma set_role_after_add_user_keeps_references:
  "roles_reference_users db \<Longrightarrow>
     roles_reference_users (fst (set_role (add_user db now u) u r peer_id))"
  by (auto simp add: roles_reference_users_def set_role_def add_user_def split: option.splits)

lemma one_admin_references: "roles_reference_users one_admin"
  by (auto simp add: roles_reference_users_def one_admin_def set_role_def add_user_def
        empty_db_def truthy_def split: if_splits)

lemma unknown_has_no_role_row:
  "roles_reference_users db \<Longrightarrow> users db u = None \<Longrightarrow> conversation_roles db (u, p) = None"
  unfolding roles_reference_users_def by (metis fst_conv)

lemma extract_huge:
  "extract_user_id_from_mention vk ''9223372036854775808'' = Some 9223372036854775808"
  by code_simp

text \<open>
  C10, as the code has it. Take a user without a row in \<open>users\<close>, in a store that keeps
  the declared foreign key (no role row without a user row). With a conversation id the
  user is treated as holding the role \<open>user\<close>: the check succeeds exactly for the
  required roles whose rank is at most that of \<open>user\<close>, so it succeeds for \<open>user\<close>;
  without a conversation id the check is false for every required role. As Python runs
  the check this holds for ids that fit the 64-bit integer of SQLite; for a user id beyond
  it the check raises \<open>OverflowError\<close>, with or without a conversation id.
\<close>

theorem check_access_unknown_user:
  "(roles_reference_users db \<and> users db user_id = None
      \<longrightarrow> get_role db user_id (Some peer_id) = ''user''
          \<and> check_access db user_id required (Some peer_id) = (rank required \<le> rank ''user'')
          \<and> check_access db user_id ''user'' (Some peer_id)
          \<and> \<not> check_access db user_id required None)
   \<and> (roles_reference_users db \<and> users db user_id = None \<and> bindable user_id
      \<longrightarrow> (bindable peer_id \<longrightarrow>
             check_access_call db user_id required (Some peer_id)
               = Inr (rank required \<le> rank ''user''))
          \<and> check_access_call db user_id required None = Inr False)
   \<and> (\<not> bindable user_id
      \<longrightarrow> check_access_call db user_id required (Some peer_id) = Inl OverflowError
          \<and> check_access_call db user_id required None = Inl OverflowError)"
proof (intro conjI impI)
  assume h: "roles_reference_users db \<and> users db user_id = None"
  then have n: "conversation_roles db (user_id, peer_id) = None"
    using unknown_has_no_role_row by blast
  show "get_role db user_id (Some peer_id) = ''user''"
    using h n by (simp add: get_role_def global_role_def truthy_def)
  show "check_access db user_id required (Some peer_id) = (rank required \<le> rank ''user'')"
    using h n by (simp add: check_access_def get_role_def global_role_def truthy_def)
  show "check_access db user_id ''user'' (Some peer_id)"
    using h n by (simp add: check_access_def get_role_def global_role_def truthy_def)
  show "\<not> check_access db user_id required None"
    using h by (simp add: check_access_def get_user_def)
next
  assume h: "roles_reference_users db \<and> users db user_id = None \<and> bindable user_id"
  then have n: "conversation_roles db (user_id, peer_id) = None"
    using unknown_has_no_role_row by blast
  show "check_access_call db user_id required None = Inr False"
    using h by (simp add: check_access_call_def get_user_call_def get_user_def)
  assume "bindable peer_id"
  then show "check_access_call db user_id required (Some peer_id)
               = Inr (rank required \<le> rank ''user'')"
    using h n
    by (simp add: check_access_call_def get_role_call_def get_role_def global_role_def truthy_def)
next
  assume "\<not> bindable user_id"
  then show "check_access_call db user_id required (Some peer_id) = Inl OverflowError"
    by (simp add: check_access_call_def get_role_call_def)
next
  assume "\<not> bindable user_id"
  then show "check_access_call db user_id required None = Inl OverflowError"
    by (simp add: check_access_call_def get_user_call_def)
qed

theorem check_access_unknown_user_witness:
  "roles_reference_users one_admin \<and> users one_admin 7 = None \<and> bindable 7 \<and> bindable 5
   \<and> get_role one_admin 7 (Some 5) = ''user''
   \<and> check_access one_admin 7 ''user'' (Some 5)
   \<and> \<not> check_access one_admin 7 ''moderator'' (Some 5)
   \<and> check_access_call one_admin 7 ''moderator'' (Some 5) = Inr False
   \<and> check_access_call one_admin 7 ''user'' None = Inr False
   \<and> \<not> bindable 9223372036854775808
   \<and> check_access_call one_admin 9223372036854775808 ''user'' None = Inl OverflowError"
proof -
  have h1: "roles_reference_users one_admin" by (rule one_admin_references)
  have h2: "users one_admin 7 = None"
    by (simp add: one_admin_def set_role_def add_user_def empty_db_def truthy_def)
  have h3: "bindable 7" "bindable 5" by (simp_all add: bindable_def)
  have h4: "\<not> bindable 9223372036854775808" by (simp add: bindable_def)
  have a: "get_role one_admin 7 (Some 5) = ''user'' \<and> check_access one_admin 7 ''user'' (Some 5)"
    using check_access_unknown_user [of one_admin 7 5 "''user''"] h1 h2 by blast
  have b: "\<not> check_access one_admin 7 ''moderator'' (Some 5)
           \<and> check_access_call one_admin 7 ''moderator'' (Some 5) = Inr False"
    using check_access_unknown_user [of one_admin 7 5 "''moderator''"] h1 h2 h3
    by (simp add: rank_values)
  have c: "check_access_call one_admin 7 ''user'' None = Inr False"
    using check_access_unknown_user [of one_admin 7 5 "''user''"] h1 h2 h3 by blast
  have d: "check_access_call one_admin 9223372036854775808 ''user'' None = Inl OverflowError"
    using check_access_unknown_user [of one_admin 9223372036854775808 5 "''user''"] h4 by blast
  show ?thesis using h1 h2 h3 h4 a b c d by simp
qed

text \<open>
  Two inputs at which the unrestricted statement fails. The target id
  9223372036854775808, which the resolver returns for that text in a command, has no row,
  and the check without a conversation id raises instead of returning false. And after
  \<open>set_role\<close> on the empty store (it registers nobody, and foreign keys are not
  enforced) user 7 has no row in \<open>users\<close> and is treated as \<open>admin\<close> in conversation 5.
\<close>

theorem check_access_unknown_user_counterexample:
  "extract_user_id_from_mention no_vk ''9223372036854775808'' = Some 9223372036854775808
   \<and> users empty_db 9223372036854775808 = None
   \<and> check_access_call empty_db 9223372036854775808 ''moderator'' None = Inl OverflowError
   \<and> check_access_call empty_db 9223372036854775808 ''moderator'' None \<noteq> Inr False
   \<and> users (fst (set_role empty_db 7 ''admin'' (Some 5))) 7 = None
   \<and> get_role (fst (set_role empty_db 7 ''admin'' (Some 5))) 7 (Some 5) = ''admin''
   \<and> check_access (fst (set_role empty_db 7 ''admin'' (Some 5))) 7 ''admin'' (Some 5)"
  by (simp add: extract_huge check_access_call_def get_user_call_def bindable_def empty_db_def
        set_role_def truthy_def get_role_def check_access_def)

section \<open>The cooldown gate\<close>

text \<open>
  C2, as the code has it. A cooldown check stamps the invoker's last-command time with the
  time of the attempt only when it lets the attempt through. An attempt that the gate
  rejects leaves the whole map, and so the invoker's stamp, as it was: the interval is
  measured from the last accepted command.
\<close>

theorem check_cooldown_stamps_on_accept:
  "check_cooldown m c now u = (m', ok) \<Longrightarrow>
     (ok \<longrightarrow> m' = m(u \<mapsto> now))
     \<and> (\<not> ok \<longrightarrow> m' = m \<and> (\<exists>t. m u = Some t \<and> now - t < real_of_int c))"
  by (auto simp add: check_cooldown_def split: option.splits if_splits)

theorem check_cooldown_stamps_on_accept_witness:
  "check_cooldown [7 \<mapsto> 100] 3 101 7 = ([7 \<mapsto> 100], False)
   \<and> (\<exists>t. [7 \<mapsto> (100::real)] 7 = Some t \<and> 101 - t < real_of_int 3)"
proof -
  have h: "check_cooldown [7 \<mapsto> 100] 3 101 7 = ([7 \<mapsto> 100], False)"
    by (simp add: check_cooldown_def)
  show ?thesis using check_cooldown_stamps_on_accept [OF h] h by simp
qed

text \<open>
  A rejected attempt is not stamped: with the cooldown at 3 seconds and the last command at time
  100, the attempt at time 101 is rejected and the stored time stays 100.
\<close>

theorem check_cooldown_rejected_counterexample:
  "snd (check_cooldown [7 \<mapsto> 100] 3 101 7) = False
   \<and> fst (check_cooldown [7 \<mapsto> 100] 3 101 7) 7 = Some 100
   \<and> fst (check_cooldown [7 \<mapsto> 100] 3 101 7) 7 \<noteq> Some 101"
  by (simp add: check_cooldown_def)

section \<open>Moderation actions\<close>

lemma extract_two: "extract_user_id_from_mention vk ''2'' = Some 2"
  by code_simp

lemma identifier_two_flood: "user_identifier_of ''2 flood'' = ''2''"
  by code_simp

lemma reason_two_flood: "reason_of ''2 flood'' = Given ''flood''"
  by code_simp




lemma twice_warned_row:
  "users twice_warned 2 = Some ((new_user 0)\<lparr> warns := 2 \<rparr>)"
  by (simp add: twice_warned_def add_warn_def add_user_def empty_db_def new_user_def Let_def)

text \<open>
  C3. A warning that takes the counter of a target from 2 to 3, the target not being
  protected by the staff check of the handler, makes these calls in this order: the
  warning is stored, announced and audited under the action \<open>warn\<close>; then the ban
  record is written with the reason composed from the count, the ban is announced, the
  kick is attempted, and a second audit entry is emitted under the action \<open>ban\<close>. The
  store then holds the ban record and the counter 3.
\<close>

theorem warn_third_auto_ban:
  assumes "args \<noteq> []" and "contains CHR '' '' args"
    and "extract_user_id_from_mention vk (user_identifier_of args) = Some target_id"
    and "target_id \<noteq> 0"
    and "\<not> staff_protected db target_id user_id"
    and "get_warns db target_id = 2"
  shows "snd (cmd_warn vk now db peer_id user_id args) =
           [DbCall (AddUser target_id),
            DbCall (AddWarn target_id (reason_of args)),
            SendMessage peer_id (WarnIssued target_id user_id (reason_of args) 3),
            SendLogMessage ''warn'' user_id (Some target_id) (Some peer_id)
              (WarnDetails (reason_of args) 3),
            DbCall (BanUser target_id (AutoBanLimit 3)),
            SendMessage peer_id (AutoBanned target_id 3),
            KickUser peer_id target_id,
            SendLogMessage ''ban'' user_id (Some target_id) (Some peer_id) (AutoBanDetails 3)]
         \<and> get_ban (fst (cmd_warn vk now db peer_id user_id args)) target_id
             = Some \<lparr> ban_text = AutoBanLimit 3, ban_timestamp = int now \<rparr>
         \<and> get_warns (fst (cmd_warn vk now db peer_id user_id args)) target_id = 3"
proof -
  from assms(6) obtain row where row: "users db target_id = Some row" "warns row = 2"
    by (auto simp add: get_warns_def split: option.splits)
  have known: "add_user db now target_id = db" using row by (simp add: add_user_def)
  show ?thesis
    using assms(1-5) row
    by (simp add: cmd_warn_def not_id_def known add_warn_def Let_def auto_ban_def ban_user_def
          get_ban_def get_warns_def)
qed

theorem warn_third_auto_ban_witness:
  "''2 flood'' \<noteq> [] \<and> contains CHR '' '' ''2 flood''
   \<and> extract_user_id_from_mention no_vk (user_identifier_of ''2 flood'') = Some 2
   \<and> \<not> staff_protected twice_warned 2 1
   \<and> get_warns twice_warned 2 = 2
   \<and> snd (cmd_warn no_vk 50 twice_warned 2000000001 1 ''2 flood'') =
        [DbCall (AddUser 2),
         DbCall (AddWarn 2 (Given ''flood'')),
         SendMessage 2000000001 (WarnIssued 2 1 (Given ''flood'') 3),
         SendLogMessage ''warn'' 1 (Some 2) (Some 2000000001) (WarnDetails (Given ''flood'') 3),
         DbCall (BanUser 2 (AutoBanLimit 3)),
         SendMessage 2000000001 (AutoBanned 2 3),
         KickUser 2000000001 2,
         SendLogMessage ''ban'' 1 (Some 2) (Some 2000000001) (AutoBanDetails 3)]
   \<and> get_ban (fst (cmd_warn no_vk 50 twice_warned 2000000001 1 ''2 flood'')) 2
        = Some \<lparr> ban_text = AutoBanLimit 3, ban_timestamp = 50 \<rparr>"
proof -
  have h1: "''2 flood'' \<noteq> []" by simp
  have h2: "contains CHR '' '' ''2 flood''" by (simp add: contains_def)
  have h3: "extract_user_id_from_mention no_vk (user_identifier_of ''2 flood'') = Some 2"
    by (simp add: identifier_two_flood extract_two)
  have h4: "(2::int) \<noteq> 0" by simp
  have h5: "\<not> staff_protected twice_warned 2 1"
    by (simp add: staff_protected_def check_access_def get_user_def twice_warned_row
          new_user_def rank_values)
  have h6: "get_warns twice_warned 2 = 2"
    by (simp add: get_warns_def twice_warned_row)
  show ?thesis
    using warn_third_auto_ban [OF h1 h2 h3 h4 h5 h6, of 50 2000000001] h2 h3 h5 h6
    by (simp add: reason_two_flood)
qed

text \<open>
  The staff check of \<open>cmd_ban\<close> calls \<open>check_access\<close> without a conversation id, so it
  reads the global roles: it rejects exactly when the target's global role is at least
  \<open>moderator\<close> and the actor's is below \<open>admin\<close>, and it leaves the store as it was.
\<close>

lemma cmd_ban_global_staff_check:
  assumes "args \<noteq> []" and "contains CHR '' '' args"
    and "extract_user_id_from_mention vk (user_identifier_of args) = Some target_id"
    and "target_id \<noteq> 0"
  shows "(check_access db target_id ''moderator'' None \<and> \<not> check_access db user_id ''admin'' None
            \<longrightarrow> cmd_ban vk now db peer_id user_id args
                  = (db, [SendMessage peer_id (BanStaffProtected target_id)]))
         \<and> (\<not> check_access db target_id ''moderator'' None \<or> check_access db user_id ''admin'' None
            \<longrightarrow> get_ban (fst (cmd_ban vk now db peer_id user_id args)) target_id
                  = Some \<lparr> ban_text = reason_of args, ban_timestamp = int now \<rparr>)"
  using assms
  by (auto simp add: cmd_ban_def not_id_def staff_protected_def Let_def ban_user_def get_ban_def
        add_user_def split: option.splits)

text \<open>
  C4. The claim: a moderator who invokes the ban action on a target of at least moderator
  rank is rejected with the staff-protection message, no ban record and no ban audit
  entry result, and only actors of at least admin rank may ban staff. The code at a
  concrete input: users 1 and 2 are moderators and user 3 is senior moderator of
  conversation 2000000001, appointed as the role commands appoint them. User 3 passes the
  dispatcher's check for the ban command (\<open>has_rights\<close> for \<open>senior_moderator\<close>) and
  runs the handler on user 2: the handler writes the ban record, announces the ban, emits
  the \<open>ban\<close> audit entry and attempts the kick, and sends no staff-protection message.
  The handler does the same when it is run for user 1, a moderator.
\<close>

theorem cmd_ban_conversation_moderator:
  "rank (get_role conversation_staff 1 (Some 2000000001)) = rank ''moderator''
   \<and> rank (get_role conversation_staff 2 (Some 2000000001)) = rank ''moderator''
   \<and> rank (get_role conversation_staff 3 (Some 2000000001)) = rank ''senior_moderator''
   \<and> has_rights conversation_staff no_vk 2000000001 3 ''senior_moderator''
   \<and> get_ban conversation_staff 2 = None
   \<and> get_ban (fst (cmd_ban no_vk 10 conversation_staff 2000000001 3 ''2 flood'')) 2
       = Some \<lparr> ban_text = Given ''flood'', ban_timestamp = 10 \<rparr>
   \<and> snd (cmd_ban no_vk 10 conversation_staff 2000000001 3 ''2 flood'')
       = [DbCall (AddUser 2), DbCall (BanUser 2 (Given ''flood'')),
          SendMessage 2000000001 (Banned 2 3 (Given ''flood'') 10),
          SendLogMessage ''ban'' 3 (Some 2) (Some 2000000001) (BanDetails (Given ''flood'')),
          KickUser 2000000001 2]
   \<and> get_ban (fst (cmd_ban no_vk 10 conversation_staff 2000000001 1 ''2 flood'')) 2
       = Some \<lparr> ban_text = Given ''flood'', ban_timestamp = 10 \<rparr>"
  by (simp add: conversation_staff_def cmd_ban_def extract_two identifier_two_flood
        reason_two_flood not_id_def staff_protected_def check_access_def get_user_def
        get_role_def truthy_def set_role_def add_user_def empty_db_def new_user_def rank_values
        contains_def ban_user_def get_ban_def has_rights_def global_role_def Let_def)



section \<open>Mutes\<close>





section \<open>Warnings\<close>






















lemmas char_class_defs = code_def is_space_def is_decimal_def isdigit_char_def is_word_def

section \<open>Duration parsing\<close>

text \<open>
  C8. \<open>parse_time\<close> maps \<open>30m\<close> to 1800, \<open>2h\<close> to 7200 and \<open>1d\<close> to 86400; on
  \<open>abc\<close>, on \<open>5\<close> (a number without a unit) and on the empty string it raises
  instead of returning a value.
\<close>

theorem parse_time_examples:
  "parse_time ''30m'' = Inr 1800
   \<and> parse_time ''2h'' = Inr 7200
   \<and> parse_time ''1d'' = Inr 86400
   \<and> parse_time ''abc'' = Inl ValueError
   \<and> parse_time ''5'' = Inl ValueError
   \<and> parse_time [] = Inl ValueError"
  by code_simp

section \<open>Mention resolution\<close>

lemma handle_not_found:
  assumes "\<not> contains CHR '' '' h" and "users_get vk h = None \<or> users_get vk h = Some []"
  shows "extract_user_id_from_mention vk (CHR ''@'' # h) = None"
proof -
  have l: "lookup_screen_name vk h = None"
    using assms(2) by (auto simp add: lookup_screen_name_def)
  have d: "\<not> isdigit (CHR ''@'' # h)" by (simp add: isdigit_def char_class_defs)
  have u: "url_rest (CHR ''@'' # h) = CHR ''@'' # h"
    by (simp add: url_rest_def startswith_def)
  show ?thesis
    using assms(1) l d u
    by (simp add: extract_user_id_from_mention_def extract_body_def first_word_of_def
          contains_def bracket_round_def id_url_round_def any_url_round_def at_round_def
          match_id_url_def match_any_url_def startswith_def full_text_round_def)
qed

lemma lookup_fails:
  "users_get vk s = None \<or> users_get vk s = Some [] \<Longrightarrow> lookup_screen_name vk s = None"
  by (auto simp add: lookup_screen_name_def)

lemma lookup_no_vk: "lookup_screen_name no_vk s = None"
  by (simp add: lookup_screen_name_def no_vk_def)

lemma failed_lookups_same_result:
  assumes "\<forall>s. users_get vk s = None \<or> users_get vk s = Some []"
  shows "extract_user_id_from_mention vk m = extract_user_id_from_mention no_vk m"
proof -
  have l: "lookup_screen_name vk = lookup_screen_name no_vk"
    using assms lookup_fails [of vk] by (auto simp add: lookup_no_vk fun_eq_iff)
  show ?thesis
    unfolding extract_user_id_from_mention_def extract_body_def id_url_round_def
      any_url_round_def at_round_def screen_name_of_url_def full_text_round_def l
    by (rule refl)
qed

lemma vanity_url_not_found: "extract_user_id_from_mention no_vk ''https://vk.com/durov'' = None"
  by code_simp

text \<open>
  C7. The resolver maps \<open>123456\<close>, \<open>[id123456|Ivan Petrov]\<close> and
  \<open>https://vk.com/id123456\<close> to 123456 whatever the platform answers; for
  \<open>@nonexistent_handle\<close> with a profile lookup that raises it returns nothing. More
  generally a handle \<open>@h\<close> whose lookup raises or matches no profile resolves to
  nothing; on a platform where every lookup raises or matches nothing the resolver
  returns what it returns when every lookup raises, so the two kinds of failure are one
  result; and whenever the body of the resolver raises, the caller receives nothing rather
  than the exception.
\<close>

theorem mention_resolution:
  "extract_user_id_from_mention vk ''123456'' = Some 123456
   \<and> extract_user_id_from_mention vk ''[id123456|Ivan Petrov]'' = Some 123456
   \<and> extract_user_id_from_mention vk ''https://vk.com/id123456'' = Some 123456
   \<and> (users_get vk ''nonexistent_handle'' = None
        \<longrightarrow> extract_user_id_from_mention vk ''@nonexistent_handle'' = None)
   \<and> (\<not> contains CHR '' '' h \<and> (users_get vk h = None \<or> users_get vk h = Some [])
        \<longrightarrow> extract_user_id_from_mention vk (CHR ''@'' # h) = None)
   \<and> ((\<forall>s. users_get vk s = None \<or> users_get vk s = Some [])
        \<longrightarrow> extract_user_id_from_mention vk m = extract_user_id_from_mention no_vk m)
   \<and> (extract_body vk m = Inl e \<longrightarrow> extract_user_id_from_mention vk m = None)"
proof (intro conjI impI)
  show "extract_user_id_from_mention vk ''123456'' = Some 123456" by code_simp
  show "extract_user_id_from_mention vk ''[id123456|Ivan Petrov]'' = Some 123456" by code_simp
  show "extract_user_id_from_mention vk ''https://vk.com/id123456'' = Some 123456" by code_simp
next
  assume "users_get vk ''nonexistent_handle'' = None"
  then show "extract_user_id_from_mention vk ''@nonexistent_handle'' = None"
    using handle_not_found [of "''nonexistent_handle''" vk] by (simp add: contains_def)
next
  assume "\<not> contains CHR '' '' h \<and> (users_get vk h = None \<or> users_get vk h = Some [])"
  then show "extract_user_id_from_mention vk (CHR ''@'' # h) = None"
    using handle_not_found by blast
next
  assume "\<forall>s. users_get vk s = None \<or> users_get vk s = Some []"
  then show "extract_user_id_from_mention vk m = extract_user_id_from_mention no_vk m"
    by (rule failed_lookups_same_result)
next
  assume "extract_body vk m = Inl e"
  then show "extract_user_id_from_mention vk m = None"
    by (simp add: extract_user_id_from_mention_def)
qed

lemma body_raises_on_blank: "extract_body vk '' '' = Inl IndexError"
  by code_simp

theorem mention_resolution_witness:
  "users_get no_vk ''nonexistent_handle'' = None
   \<and> extract_user_id_from_mention no_vk ''@nonexistent_handle'' = None
   \<and> \<not> contains CHR '' '' ''ghost'' \<and> users_get no_match_vk ''ghost'' = Some []
   \<and> extract_user_id_from_mention no_match_vk ''@ghost'' = None
   \<and> (\<forall>s. users_get no_match_vk s = None \<or> users_get no_match_vk s = Some [])
   \<and> extract_user_id_from_mention no_match_vk ''https://vk.com/durov'' = None
   \<and> extract_body no_vk '' '' = Inl IndexError
   \<and> extract_user_id_from_mention no_vk '' '' = None"
proof -
  have h1: "users_get no_vk ''nonexistent_handle'' = None" by (simp add: no_vk_def)
  have h2: "\<not> contains CHR '' '' ''ghost''" by (simp add: contains_def)
  have h3: "users_get no_match_vk s = Some []" for s by (simp add: no_match_vk_def)
  have h4: "extract_body no_vk '' '' = Inl IndexError" by (rule body_raises_on_blank)
  have c1: "extract_user_id_from_mention no_vk ''@nonexistent_handle'' = None"
    using mention_resolution [of no_vk "[]" "[]" IndexError] h1 by blast
  have c2: "extract_user_id_from_mention no_match_vk ''@ghost'' = None"
    using mention_resolution [of no_match_vk "''ghost''" "[]" IndexError] h2 h3 by simp
  have c3: "extract_user_id_from_mention no_match_vk ''https://vk.com/durov'' = None"
    using mention_resolution [of no_match_vk "[]" "''https://vk.com/durov''" IndexError] h3
    by (simp add: vanity_url_not_found)
  have c4: "extract_user_id_from_mention no_vk '' '' = None"
    using mention_resolution [of no_vk "[]" "'' ''" IndexError] h4 by blast
  show ?thesis using h1 h2 h3 h4 c1 c2 c3 c4 by simp
qed

end
